theory Spec2Isabelle
  imports
    Complex_Main
    "HOL-Library.Char_ord"
    "HOL-Library.List_Lexorder"
    "HOL-Library.AList"
begin

section \<open>The cost report pipeline of lambda\_aws\_finops.py\<close>

text \<open>
  The module is a linear pipeline: fetch the billing data, reshape and compare it,
  render a chart, assemble the message blocks, post them to a webhook. Everything the
  Python does beyond returning a value is explicit here:
  \<^item> a raised exception is the \<open>Inl\<close> branch of a sum \<open>exn + 'a\<close>;
  \<^item> Python's \<open>None\<close> is the \<open>None\<close> of an option;
  \<^item> a dict is an association list with distinct keys in insertion order
    (\<open>d[k] = v\<close> is \<open>AList.update k v d\<close>, which keeps the position of a key
    that is already there, as Python does);
  \<^item> the outside world (clock, billing API, environment variable, network) is a record
    of outcomes, and every call to it is written to a trace of events.

  Amounts are Python floats. They are modelled as the real numbers they denote:
  comparisons, subtraction of zero and the selection of months and services are exact in
  both, while the rounding of \<open>/\<close>, \<open>*\<close> and \<open>sum\<close> is not modelled. The only
  non-finite float the module itself produces, \<open>float("inf")\<close>, is a value of its own.
  Strings are lists of characters compared lexicographically by character code, as
  Python compares \<open>str\<close>.
\<close>

subsection \<open>Exceptions, library functions and the outside world\<close>

datatype exn =
    IndexError string
  | ValueError string
  | KeyError string
  | ZeroDivisionError string
  | ClientError string
  | OtherError string

fun str_exn :: "exn \<Rightarrow> string" where
  "str_exn (IndexError m) = m"
| "str_exn (ValueError m) = m"
| "str_exn (KeyError m) = m"
| "str_exn (ZeroDivisionError m) = m"
| "str_exn (ClientError m) = m"
| "str_exn (OtherError m) = m"

text \<open>
  The functions of the Python standard library that the module calls on its data. The
  theorems hold for every behaviour of them.
  \<^item> \<open>strptime_strftime s\<close> is \<open>datetime.strptime(s, "%Y-%m-%d").strftime("%Y-%m")\<close>;
  \<^item> \<open>float_of s\<close> is \<open>float(s)\<close>;
  \<^item> \<open>format_2f x\<close> is \<open>f"{x:.2f}"\<close>.
\<close>

record pylib =
  strptime_strftime :: "string \<Rightarrow> exn + string"
  float_of :: "string \<Rightarrow> exn + real"
  format_2f :: "real \<Rightarrow> string"

text \<open>One element of \<open>ResultsByTime\<close>: the period start and the groups, each with its
  \<open>Keys\<close> and its \<open>Metrics.UnblendedCost.Amount\<close>.\<close>

record group_item =
  Keys :: "string list"
  Amount :: string

record month_data =
  Start :: string
  Groups :: "group_item list"

record request =
  full_url :: string
  data :: string
  headers :: "(string \<times> string) list"

record http_response =
  getcode :: int
  read :: "exn + string"

text \<open>
  The outside world of one invocation:
  \<^item> \<open>date_range\<close> is what \<open>get_date_range()\<close> returns, a function of the clock only;
  \<^item> \<open>get_cost_and_usage start end\<close> is the answer of the billing client: the
    \<open>ResultsByTime\<close> list, or the exception it raises;
  \<^item> \<open>SLACK_WEBHOOK_URL\<close> is \<open>os.environ.get("SLACK_WEBHOOK_URL")\<close>;
  \<^item> \<open>Request_init\<close> is the constructor \<open>urllib.request.Request\<close>, which raises
    \<open>ValueError\<close> on a URL without a scheme;
  \<^item> \<open>urlopen\<close> is the answer of the network.
\<close>

record world =
  date_range :: "string \<times> string"
  get_cost_and_usage :: "string \<Rightarrow> string \<Rightarrow> exn + month_data list"
  SLACK_WEBHOOK_URL :: "string option"
  Request_init :: "string \<Rightarrow> string \<Rightarrow> (string \<times> string) list \<Rightarrow> exn + request"
  urlopen :: "request \<Rightarrow> exn + http_response"

datatype event =
    BillingQuery string string
  | LogError string
  | LogInfo string
  | CallCreateReport
  | CallSendToSlack
  | RequestInit string string
  | UrlOpened request

subsection \<open>Cost Fetcher\<close>

definition get_date_range :: "world \<Rightarrow> string \<times> string" where
  "get_date_range W = date_range W"

definition get_cost_data ::
  "world \<Rightarrow> string \<Rightarrow> string \<Rightarrow> (exn + month_data list option) \<times> event list" where
  "get_cost_data W start_date end_date =
     (case get_cost_and_usage W start_date end_date of
        Inr results \<Rightarrow> (Inr (Some results), [BillingQuery start_date end_date])
      | Inl (ClientError m) \<Rightarrow>
          (Inr None,
           [BillingQuery start_date end_date,
            LogError (''An error occurred while fetching cost data: '' @ m)])
      | Inl e \<Rightarrow> (Inl e, [BillingQuery start_date end_date]))"

subsection \<open>Cost Analyzer\<close>

type_synonym service_costs = "(string \<times> real) list"
type_synonym cost_table = "(string \<times> service_costs) list"

datatype percent = Finite real | Infinity

record comparison =
  current :: real
  previous :: real
  change :: real
  percent_change :: percent

record analysis =
  top_10_comparison :: "(string \<times> comparison) list"
  monthly_costs :: cost_table
  current_month :: string
  previous_month :: string

text \<open>The dict comprehension over \<open>month_data["Groups"]\<close>: the key \<open>item["Keys"][0]\<close> is
  evaluated before the value \<open>float(...)\<close>; a later item with the same key overwrites
  the amount.\<close>

fun groups_dict :: "pylib \<Rightarrow> group_item list \<Rightarrow> service_costs \<Rightarrow> exn + service_costs" where
  "groups_dict L [] d = Inr d"
| "groups_dict L (item # items) d =
     (case Keys item of
        [] \<Rightarrow> Inl (IndexError ''list index out of range'')
      | k # _ \<Rightarrow>
          (case float_of L (Amount item) of
             Inl e \<Rightarrow> Inl e
           | Inr a \<Rightarrow> groups_dict L items (AList.update k a d)))"

text \<open>The loop \<open>for month_data in cost_data\<close> that fills \<open>monthly_costs\<close>.\<close>

fun process_data :: "pylib \<Rightarrow> month_data list \<Rightarrow> cost_table \<Rightarrow> exn + cost_table" where
  "process_data L [] mc = Inr mc"
| "process_data L (md # rest) mc =
     (case strptime_strftime L (Start md) of
        Inl e \<Rightarrow> Inl e
      | Inr month \<Rightarrow>
          (case groups_dict L (Groups md) [] of
             Inl e \<Rightarrow> Inl e
           | Inr d \<Rightarrow> process_data L rest (AList.update month d mc)))"

text \<open>\<open>sorted(xs, key=f, reverse=True)\<close>: CPython reverses the list, sorts it stably in
  ascending order and reverses the result, so that equal keys keep their order.\<close>

definition sorted_reverse :: "('a \<Rightarrow> real) \<Rightarrow> 'a list \<Rightarrow> 'a list" where
  "sorted_reverse f xs = rev (sort_key f (rev xs))"

definition dict_get :: "('k \<times> real) list \<Rightarrow> 'k \<Rightarrow> real \<Rightarrow> real" where
  "dict_get d k dflt = (case map_of d k of None \<Rightarrow> dflt | Some v \<Rightarrow> v)"

definition compare_entry :: "real \<Rightarrow> real \<Rightarrow> comparison" where
  "compare_entry current_cost previous_cost =
     (let chg = current_cost - previous_cost;
          pct = (if previous_cost > 0 then Finite (chg / previous_cost * 100) else Infinity)
      in \<lparr>current = current_cost, previous = previous_cost, change = chg,
          percent_change = pct\<rparr>)"

text \<open>The loop \<open>for service, current_cost in current_top_10\<close>.\<close>

fun compare_loop ::
  "service_costs \<Rightarrow> (string \<times> real) list \<Rightarrow> (string \<times> comparison) list \<Rightarrow>
   (string \<times> comparison) list" where
  "compare_loop prev [] cmp = cmp"
| "compare_loop prev ((service, current_cost) # rest) cmp =
     compare_loop prev rest
       (AList.update service (compare_entry current_cost (dict_get prev service 0)) cmp)"

text \<open>Lines 44 to 79 of \<open>analyze_costs\<close>, on a non-empty \<open>cost_data\<close>. \<open>months[-1]\<close> and
  \<open>months[-2]\<close> raise \<open>IndexError\<close> on a list that is too short.\<close>

definition analyze :: "pylib \<Rightarrow> month_data list \<Rightarrow> exn + analysis" where
  "analyze L cost_data =
     (case process_data L cost_data [] of
        Inl e \<Rightarrow> Inl e
      | Inr mc \<Rightarrow>
          (let months = sort (map fst mc) in
           if length months < 2 then Inl (IndexError ''list index out of range'')
           else
             (let cur = months ! (length months - 1);
                  prv = months ! (length months - 2)
              in case map_of mc cur of
                   None \<Rightarrow> Inl (KeyError cur)
                 | Some cur_costs \<Rightarrow>
                     (case map_of mc prv of
                        None \<Rightarrow> Inl (KeyError prv)
                      | Some prev_costs \<Rightarrow>
                          Inr \<lparr>top_10_comparison =
                                 compare_loop prev_costs
                                   (take 10 (sorted_reverse snd cur_costs)) [],
                               monthly_costs = mc,
                               current_month = cur,
                               previous_month = prv\<rparr>))))"

definition analyze_costs :: "pylib \<Rightarrow> world \<Rightarrow> (exn + analysis option) \<times> event list" where
  "analyze_costs L W =
     (let (start_date, end_date) = get_date_range W in
      case get_cost_data W start_date end_date of
        (Inl e, ev) \<Rightarrow> (Inl e, ev)
      | (Inr None, ev) \<Rightarrow> (Inr None, ev)
      | (Inr (Some cost_data), ev) \<Rightarrow>
          if cost_data = [] then (Inr None, ev)
          else (case analyze L cost_data of
                  Inl e \<Rightarrow> (Inl e, ev)
                | Inr a \<Rightarrow> (Inr (Some a), ev)))"

subsection \<open>Chart Renderer\<close>

text \<open>The glyphs of the source are outside ASCII; each is one character of the model,
  and no property below depends on which: \<open>full_block\<close> stands for U+2588, \<open>up_glyph\<close>,
  \<open>down_glyph\<close> and \<open>flat_glyph\<close> for U+1F53C, U+1F53D and U+2796.\<close>

definition full_block :: string where "full_block = [CHR 0xDB]"
definition up_glyph :: string where "up_glyph = [CHR 0x1E]"
definition down_glyph :: string where "down_glyph = [CHR 0x1F]"
definition flat_glyph :: string where "flat_glyph = [CHR 0xC4]"

definition chart_width :: nat where "chart_width = 20"

text \<open>\<open>int(x)\<close> on a float truncates towards zero.\<close>

definition py_int :: "real \<Rightarrow> int" where
  "py_int x = (if 0 \<le> x then \<lfloor>x\<rfloor> else - \<lfloor>- x\<rfloor>)"

text \<open>\<open>s * n\<close> on a string is empty for \<open>n \<le> 0\<close>; \<open>s.ljust(w)\<close> pads with spaces and never
  cuts.\<close>

definition str_mul :: "string \<Rightarrow> int \<Rightarrow> string" where
  "str_mul s n = concat (replicate (nat n) s)"

definition ljust :: "string \<Rightarrow> nat \<Rightarrow> string" where
  "ljust s w = s @ replicate (w - length s) CHR '' ''"

definition bar_length :: "real \<Rightarrow> real \<Rightarrow> int" where
  "bar_length cost max_cost = py_int ((cost / max_cost) * real chart_width)"

definition bar :: "real \<Rightarrow> real \<Rightarrow> string" where
  "bar cost max_cost = str_mul full_block (bar_length cost max_cost)"

text \<open>\<open>[sum(monthly_costs[month].values()) for month in months]\<close>.\<close>

fun total_costs :: "cost_table \<Rightarrow> string list \<Rightarrow> exn + real list" where
  "total_costs mc [] = Inr []"
| "total_costs mc (month # months) =
     (case map_of mc month of
        None \<Rightarrow> Inl (KeyError month)
      | Some d \<Rightarrow>
          (case total_costs mc months of
             Inl e \<Rightarrow> Inl e
           | Inr ts \<Rightarrow> Inr (sum_list (map snd d) # ts)))"

text \<open>The loop over \<open>zip(months, total_costs)\<close>. Python raises \<open>ZeroDivisionError\<close> on
  a division by a zero \<open>max_cost\<close>.\<close>

fun chart_loop :: "pylib \<Rightarrow> real \<Rightarrow> (string \<times> real) list \<Rightarrow> string \<Rightarrow> exn + string" where
  "chart_loop L max_cost [] chart = Inr chart"
| "chart_loop L max_cost ((month, cost) # rest) chart =
     (if max_cost = 0 then Inl (ZeroDivisionError ''float division by zero'')
      else chart_loop L max_cost rest
             (chart @ month @ '': $'' @ format_2f L cost @ ''\<newline>''
                @ ljust (bar cost max_cost) chart_width @ '' | '' @ format_2f L cost
                @ ''\<newline>\<newline>''))"

definition create_ascii_chart :: "pylib \<Rightarrow> cost_table \<Rightarrow> exn + string" where
  "create_ascii_chart L mc =
     (let months = sort (map fst mc) in
      case total_costs mc months of
        Inl e \<Rightarrow> Inl e
      | Inr totals \<Rightarrow>
          if totals = [] then Inl (ValueError ''max() arg is an empty sequence'')
          else chart_loop L (Max (set totals)) (zip months totals)
                 ''6-Month Cost Overview\<newline>\<newline>'')"

subsection \<open>JSON values and \<open>json.dumps\<close>\<close>

text \<open>The values the module serialises are built from strings, lists and dicts only.
  \<open>json_dumps\<close> is \<open>json.dumps\<close> with its defaults: separators \<open>", "\<close> and \<open>": "\<close>, and
  every character outside the printable ASCII range escaped.\<close>

datatype json = JString string | JArray "json list" | JObject "(string \<times> json) list"

definition hex_digit :: "nat \<Rightarrow> char" where
  "hex_digit n = ''0123456789abcdef'' ! n"

definition escape_char :: "char \<Rightarrow> string" where
  "escape_char c =
     (if c = CHR 0x22 then [CHR 0x5C, CHR 0x22]
      else if c = CHR 0x5C then [CHR 0x5C, CHR 0x5C]
      else if c = CHR 0x0A then [CHR 0x5C, CHR ''n'']
      else if c = CHR 0x0D then [CHR 0x5C, CHR ''r'']
      else if c = CHR 0x09 then [CHR 0x5C, CHR ''t'']
      else if c = CHR 0x08 then [CHR 0x5C, CHR ''b'']
      else if c = CHR 0x0C then [CHR 0x5C, CHR ''f'']
      else if 32 \<le> (of_char c :: nat) \<and> (of_char c :: nat) \<le> 126 then [c]
      else [CHR 0x5C, CHR ''u'', CHR ''0'', CHR ''0'',
            hex_digit (of_char c div 16), hex_digit (of_char c mod 16)])"

definition quote :: "string \<Rightarrow> string" where
  "quote s = CHR 0x22 # concat (map escape_char s) @ [CHR 0x22]"

fun join :: "string \<Rightarrow> string list \<Rightarrow> string" where
  "join sep [] = []"
| "join sep [x] = x"
| "join sep (x # y # ys) = x @ sep @ join sep (y # ys)"

fun json_dumps :: "json \<Rightarrow> string" where
  "json_dumps (JString s) = quote s"
| "json_dumps (JArray vs) = ''['' @ join '', '' (map json_dumps vs) @ '']''"
| "json_dumps (JObject kvs) =
     ''{'' @ join '', '' (map (\<lambda>(k, v). quote k @ '': '' @ json_dumps v) kvs) @ ''}''"

subsection \<open>\<open>json.loads\<close>\<close>

text \<open>The parser of the standard library, for the values above: whitespace between
  tokens, the escapes of JSON strings, arrays and objects. An object becomes a dict, so a
  repeated key keeps its first position and its last value. Escapes \<open>\<backslash>uXXXX\<close> beyond
  \<open>\<backslash>u00ff\<close> are outside the characters of the model and are refused. The recursion is
  bounded by a fuel that \<open>json_loads\<close> sets to the length of the text.\<close>

definition is_ws :: "char \<Rightarrow> bool" where
  "is_ws c = (c = CHR '' '' \<or> c = CHR 0x0A \<or> c = CHR 0x0D \<or> c = CHR 0x09)"

definition skip_ws :: "string \<Rightarrow> string" where
  "skip_ws s = dropWhile is_ws s"

definition hex_val :: "char \<Rightarrow> nat option" where
  "hex_val c =
     (let n = (of_char c :: nat) in
      if 48 \<le> n \<and> n \<le> 57 then Some (n - 48)
      else if 97 \<le> n \<and> n \<le> 102 then Some (n - 87)
      else if 65 \<le> n \<and> n \<le> 70 then Some (n - 55)
      else None)"

definition unescape :: "char \<Rightarrow> char option" where
  "unescape e =
     (if e = CHR 0x22 then Some (CHR 0x22)
      else if e = CHR 0x5C then Some (CHR 0x5C)
      else if e = CHR ''/'' then Some (CHR ''/'')
      else if e = CHR ''n'' then Some (CHR 0x0A)
      else if e = CHR ''r'' then Some (CHR 0x0D)
      else if e = CHR ''t'' then Some (CHR 0x09)
      else if e = CHR ''b'' then Some (CHR 0x08)
      else if e = CHR ''f'' then Some (CHR 0x0C)
      else None)"

definition cons_char :: "char \<Rightarrow> (string \<times> string) option \<Rightarrow> (string \<times> string) option" where
  "cons_char c r = (case r of None \<Rightarrow> None | Some (s, rest) \<Rightarrow> Some (c # s, rest))"

fun parse_chars :: "string \<Rightarrow> (string \<times> string) option" where
  "parse_chars [] = None"
| "parse_chars (c # cs) =
     (if c = CHR 0x22 then Some ([], cs)
      else if c = CHR 0x5C then
        (case cs of
           [] \<Rightarrow> None
         | e # r \<Rightarrow>
             if e = CHR ''u'' then
               (case r of
                  h1 # h2 # h3 # h4 # r' \<Rightarrow>
                    (case (hex_val h1, hex_val h2, hex_val h3, hex_val h4) of
                       (Some a, Some b, Some c', Some d) \<Rightarrow>
                         if a = 0 \<and> b = 0 then cons_char (char_of (16 * c' + d)) (parse_chars r')
                         else None
                     | _ \<Rightarrow> None)
                | _ \<Rightarrow> None)
             else
               (case unescape e of
                  None \<Rightarrow> None
                | Some ch \<Rightarrow> cons_char ch (parse_chars r)))
      else if (of_char c :: nat) < 32 then None
      else cons_char c (parse_chars cs))"

definition dict_of_pairs :: "('k \<times> 'v) list \<Rightarrow> ('k \<times> 'v) list" where
  "dict_of_pairs ps = foldl (\<lambda>d (k, v). AList.update k v d) [] ps"

fun parse_value :: "nat \<Rightarrow> string \<Rightarrow> (json \<times> string) option"
  and parse_elements :: "nat \<Rightarrow> string \<Rightarrow> (json list \<times> string) option"
  and parse_members :: "nat \<Rightarrow> string \<Rightarrow> ((string \<times> json) list \<times> string) option"
where
  "parse_value 0 s = None"
| "parse_value (Suc n) s =
     (case skip_ws s of
        [] \<Rightarrow> None
      | c # cs \<Rightarrow>
          if c = CHR 0x22 then
            (case parse_chars cs of None \<Rightarrow> None | Some (t, r) \<Rightarrow> Some (JString t, r))
          else if c = CHR ''['' then
            (case skip_ws cs of
               [] \<Rightarrow> None
             | d # r \<Rightarrow>
                 if d = CHR '']'' then Some (JArray [], r)
                 else (case parse_elements n (d # r) of
                         None \<Rightarrow> None
                       | Some (vs, r') \<Rightarrow> Some (JArray vs, r')))
          else if c = CHR ''{'' then
            (case skip_ws cs of
               [] \<Rightarrow> None
             | d # r \<Rightarrow>
                 if d = CHR ''}'' then Some (JObject [], r)
                 else (case parse_members n (d # r) of
                         None \<Rightarrow> None
                       | Some (kvs, r') \<Rightarrow> Some (JObject (dict_of_pairs kvs), r')))
          else None)"
| "parse_elements 0 s = None"
| "parse_elements (Suc n) s =
     (case parse_value n s of
        None \<Rightarrow> None
      | Some (v, r) \<Rightarrow>
          (case skip_ws r of
             [] \<Rightarrow> None
           | c # r' \<Rightarrow>
               if c = CHR '','' then
                 (case parse_elements n r' of
                    None \<Rightarrow> None
                  | Some (vs, r'') \<Rightarrow> Some (v # vs, r''))
               else if c = CHR '']'' then Some ([v], r')
               else None))"
| "parse_members 0 s = None"
| "parse_members (Suc n) s =
     (case skip_ws s of
        [] \<Rightarrow> None
      | q # cs \<Rightarrow>
          if q \<noteq> CHR 0x22 then None
          else
            (case parse_chars cs of
               None \<Rightarrow> None
             | Some (k, r) \<Rightarrow>
                 (case skip_ws r of
                    [] \<Rightarrow> None
                  | c # r1 \<Rightarrow>
                      if c \<noteq> CHR '':'' then None
                      else
                        (case parse_value n r1 of
                           None \<Rightarrow> None
                         | Some (v, r2) \<Rightarrow>
                             (case skip_ws r2 of
                                [] \<Rightarrow> None
                              | c2 # r3 \<Rightarrow>
                                  if c2 = CHR '','' then
                                    (case parse_members n r3 of
                                       None \<Rightarrow> None
                                     | Some (kvs, r4) \<Rightarrow> Some ((k, v) # kvs, r4))
                                  else if c2 = CHR ''}'' then Some ([(k, v)], r3)
                                  else None)))))"

definition json_loads :: "string \<Rightarrow> json option" where
  "json_loads s =
     (case parse_value (length s) s of
        None \<Rightarrow> None
      | Some (v, r) \<Rightarrow> if skip_ws r = [] then Some v else None)"

text \<open>A value that stands for Python data: every dict has distinct keys.\<close>

fun wf_json :: "json \<Rightarrow> bool" where
  "wf_json (JString s) = True"
| "wf_json (JArray vs) = list_all wf_json vs"
| "wf_json (JObject kvs) = (distinct (map fst kvs) \<and> list_all (\<lambda>kv. wf_json (snd kv)) kvs)"

text \<open>One \<open>key: value\<close> member of a serialised object.\<close>

definition member_dumps :: "string \<times> json \<Rightarrow> string" where
  "member_dumps kv = quote (fst kv) @ '': '' @ json_dumps (snd kv)"

subsection \<open>Report Builder\<close>

definition header_block :: "string \<Rightarrow> json" where
  "header_block t =
     JObject [(''type'', JString ''header''),
              (''text'', JObject [(''type'', JString ''plain_text''), (''text'', JString t)])]"

definition section_block :: "string \<Rightarrow> json" where
  "section_block t =
     JObject [(''type'', JString ''section''),
              (''text'', JObject [(''type'', JString ''mrkdwn''), (''text'', JString t)])]"

definition divider_block :: json where
  "divider_block = JObject [(''type'', JString ''divider'')]"

definition change_icon :: "real \<Rightarrow> string" where
  "change_icon chg = (if chg > 0 then up_glyph else if chg < 0 then down_glyph else flat_glyph)"

definition format_percent :: "pylib \<Rightarrow> percent \<Rightarrow> string" where
  "format_percent L p = (case p of Finite r \<Rightarrow> format_2f L r | Infinity \<Rightarrow> ''inf'')"

definition service_block :: "pylib \<Rightarrow> string \<Rightarrow> comparison \<Rightarrow> json" where
  "service_block L service d =
     section_block
       (''*'' @ service @ ''*\<newline>''
        @ ''Current: $'' @ format_2f L (current d) @ ''\<newline>''
        @ ''Previous: $'' @ format_2f L (previous d) @ ''\<newline>''
        @ ''Change: '' @ change_icon (change d) @ '' $'' @ format_2f L \<bar>change d\<bar>
        @ '' ('' @ format_percent L (percent_change d) @ ''%)'')"

definition create_report ::
  "pylib \<Rightarrow> (string \<times> comparison) list \<Rightarrow> cost_table \<Rightarrow> string \<Rightarrow> string \<Rightarrow> exn + json list" where
  "create_report L top_10 mc cur prv =
     (case create_ascii_chart L mc of
        Inl e \<Rightarrow> Inl e
      | Inr ascii_chart \<Rightarrow>
          Inr ([header_block (''AWS Cost Analysis: '' @ cur @ '' vs '' @ prv),
                section_block ''*Top 10 Most Expensive Services Comparison:*'']
               @ map (\<lambda>(service, d). service_block L service d) top_10
               @ [divider_block,
                  header_block ''6-Month Cost Overview'',
                  section_block (''```\<newline>'' @ ascii_chart @ ''\<newline>```'')]))"

subsection \<open>Delivery Client\<close>

fun str_nat :: "nat \<Rightarrow> string" where
  "str_nat n =
     (if n < 10 then [''0123456789'' ! n]
      else str_nat (n div 10) @ [''0123456789'' ! (n mod 10)])"

definition str_int :: "int \<Rightarrow> string" where
  "str_int i = (if i < 0 then ''-'' @ str_nat (nat (- i)) else str_nat (nat i))"

text \<open>The body of the \<open>try\<close> in \<open>send_to_slack\<close>: every exception of \<open>urlopen\<close> and of
  \<open>response.read()\<close> is caught there and turned into \<open>None\<close>.\<close>

definition post :: "world \<Rightarrow> request \<Rightarrow> string option \<times> event list" where
  "post W req =
     (case urlopen W req of
        Inl e \<Rightarrow>
          (None, [UrlOpened req, LogError (''Error sending message to Slack: '' @ str_exn e)])
      | Inr response \<Rightarrow>
          if getcode response \<noteq> 200 then
            (None, [UrlOpened req,
                    LogError (''Slack API returned non-200 status code: ''
                              @ str_int (getcode response))])
          else
            (case read response of
               Inl e \<Rightarrow>
                 (None, [UrlOpened req,
                         LogError (''Error sending message to Slack: '' @ str_exn e)])
             | Inr b \<Rightarrow> (Some b, [UrlOpened req])))"

definition send_to_slack :: "world \<Rightarrow> json list \<Rightarrow> (exn + string option) \<times> event list" where
  "send_to_slack W report =
     (case SLACK_WEBHOOK_URL W of
        None \<Rightarrow> (Inr None, [LogError ''SLACK_WEBHOOK_URL environment variable is not set''])
      | Some slack_webhook_url \<Rightarrow>
          if slack_webhook_url = [] then
            (Inr None, [LogError ''SLACK_WEBHOOK_URL environment variable is not set''])
          else
            (let payload = json_dumps (JObject [(''blocks'', JArray report)]) in
             case Request_init W slack_webhook_url payload
                    [(''Content-Type'', ''application/json'')] of
               Inl e \<Rightarrow> (Inl e, [RequestInit slack_webhook_url payload])
             | Inr req \<Rightarrow>
                 (case post W req of
                    (r, ev) \<Rightarrow> (Inr r, RequestInit slack_webhook_url payload # ev))))"

subsection \<open>Entry Point\<close>

record response =
  statusCode :: int
  body :: string

definition unexpected_error :: "exn \<Rightarrow> event list \<Rightarrow> response \<times> event list" where
  "unexpected_error e ev =
     (\<lparr>statusCode = 500,
       body = json_dumps (JString (''Unexpected error: '' @ str_exn e))\<rparr>,
      ev @ [LogError (''Unexpected error in lambda_handler: '' @ str_exn e)])"

definition fetch_failed :: "event list \<Rightarrow> response \<times> event list" where
  "fetch_failed ev =
     (\<lparr>statusCode = 500, body = json_dumps (JString ''Error fetching cost data'')\<rparr>,
      ev @ [LogError ''Error fetching cost data''])"

text \<open>\<open>not top_10_comparison\<close> holds for \<open>None\<close> and for the empty dict;
  \<open>slack_response\<close> is true for a non-empty body only.\<close>

definition lambda_handler :: "pylib \<Rightarrow> world \<Rightarrow> response \<times> event list" where
  "lambda_handler L W =
     (case analyze_costs L W of
        (Inl e, ev) \<Rightarrow> unexpected_error e ev
      | (Inr r, ev) \<Rightarrow>
          (case r of
             None \<Rightarrow> fetch_failed ev
           | Some a \<Rightarrow>
               if top_10_comparison a = [] then fetch_failed ev
               else
                 (case create_report L (top_10_comparison a) (monthly_costs a)
                         (current_month a) (previous_month a) of
                    Inl e \<Rightarrow> unexpected_error e (ev @ [CallCreateReport])
                  | Inr report \<Rightarrow>
                      (case send_to_slack W report of
                         (Inl e, ev') \<Rightarrow>
                           unexpected_error e (ev @ [CallCreateReport, CallSendToSlack] @ ev')
                       | (Inr slack_response, ev') \<Rightarrow>
                           if slack_response \<noteq> None \<and> slack_response \<noteq> Some [] then
                             (\<lparr>statusCode = 200,
                               body = json_dumps (JString ''Report sent to Slack successfully'')\<rparr>,
                              ev @ [CallCreateReport, CallSendToSlack] @ ev'
                                 @ [LogInfo ''Report sent to Slack successfully''])
                           else
                             (\<lparr>statusCode = 500,
                               body = json_dumps (JString ''Error sending report to Slack'')\<rparr>,
                              ev @ [CallCreateReport, CallSendToSlack] @ ev'
                                 @ [LogError ''Failed to send report to Slack''])))))"

subsection \<open>A concrete library\<close>

text \<open>For the examples: the behaviour of the three library functions on zero-padded ISO
  dates and on plain decimal numbers.\<close>

definition is_digit :: "char \<Rightarrow> bool" where
  "is_digit c = (48 \<le> (of_char c :: nat) \<and> (of_char c :: nat) \<le> 57)"

definition nat_of_digits :: "string \<Rightarrow> nat" where
  "nat_of_digits s = foldl (\<lambda>n c. 10 * n + (of_char c - 48)) 0 s"

definition decimal :: "string \<Rightarrow> exn + real" where
  "decimal s =
     (let neg = (s \<noteq> [] \<and> hd s = CHR ''-'');
          t = (if neg then tl s else s);
          i = takeWhile (\<lambda>c. c \<noteq> CHR ''.'') t;
          f = drop 1 (dropWhile (\<lambda>c. c \<noteq> CHR ''.'') t);
          x = real (nat_of_digits i) + real (nat_of_digits f) / 10 ^ length f
      in if i \<noteq> [] \<and> list_all is_digit (i @ f) then Inr (if neg then - x else x)
         else Inl (ValueError (''could not convert string to float: '' @ s)))"

definition round_half_even :: "real \<Rightarrow> int" where
  "round_half_even y =
     (let f = \<lfloor>y\<rfloor>; d = y - of_int f
      in if d < 1 / 2 then f else if 1 / 2 < d then f + 1 else if even f then f else f + 1)"

definition fixed2 :: "real \<Rightarrow> string" where
  "fixed2 x =
     (let n = nat (round_half_even (\<bar>x\<bar> * 100))
      in (if x < 0 then ''-'' else '''') @ str_nat (n div 100) @ ''.''
         @ [''0123456789'' ! (n div 10 mod 10), ''0123456789'' ! (n mod 10)])"

definition iso_month :: "string \<Rightarrow> exn + string" where
  "iso_month s =
     (if length s = 10 \<and> s ! 4 = CHR ''-'' \<and> s ! 7 = CHR ''-''
         \<and> list_all is_digit (take 4 s @ take 2 (drop 5 s) @ drop 8 s)
      then Inr (take 7 s)
      else Inl (ValueError (''time data does not match format: '' @ s)))"

definition example_lib :: pylib where
  "example_lib = \<lparr>strptime_strftime = iso_month, float_of = decimal, format_2f = fixed2\<rparr>"

text \<open>A result set of two months, the world that returns it, and the table the analyzer
  builds from it.\<close>

definition example_data :: "month_data list" where
  "example_data =
     [\<lparr>Start = ''2024-05-01'',
       Groups = [\<lparr>Keys = [''EC2''], Amount = ''100.0''\<rparr>, \<lparr>Keys = [''S3''], Amount = ''50.0''\<rparr>]\<rparr>,
      \<lparr>Start = ''2024-06-01'',
       Groups = [\<lparr>Keys = [''S3''], Amount = ''40.0''\<rparr>, \<lparr>Keys = [''EC2''], Amount = ''120.0''\<rparr>,
                 \<lparr>Keys = [''Lambda''], Amount = ''5.5''\<rparr>]\<rparr>]"

definition example_world :: world where
  "example_world =
     \<lparr>date_range = (''2024-01-03'', ''2024-07-01''),
      get_cost_and_usage = (\<lambda>start_date end_date. Inr example_data),
      SLACK_WEBHOOK_URL = Some ''https://hooks.slack.com/services/T0/B0/X0'',
      Request_init = (\<lambda>url payload hs. Inr \<lparr>full_url = url, data = payload, headers = hs\<rparr>),
      urlopen = (\<lambda>req. Inr \<lparr>getcode = 200, read = Inr ''ok''\<rparr>)\<rparr>"

definition example_table :: cost_table where
  "example_table =
     [(''2024-05'', [(''EC2'', 100), (''S3'', 50)]),
      (''2024-06'', [(''S3'', 40), (''EC2'', 120), (''Lambda'', 11 / 2)])]"

section \<open>Properties\<close>

subsection \<open>\<open>json.loads\<close> inverts \<open>json.dumps\<close>\<close>

lemma hex_val_hex_digit: "k < 16 \<Longrightarrow> hex_val (hex_digit k) = Some k"
proof -
  assume "k < 16"
  then have "k = 0 \<or> k = 1 \<or> k = 2 \<or> k = 3 \<or> k = 4 \<or> k = 5 \<or> k = 6 \<or> k = 7 \<or> k = 8
      \<or> k = 9 \<or> k = 10 \<or> k = 11 \<or> k = 12 \<or> k = 13 \<or> k = 14 \<or> k = 15"
    by arith
  then show ?thesis
    by (elim disjE) (simp_all add: hex_val_def hex_digit_def)
qed

lemma hex_val_zero: "hex_val CHR ''0'' = Some 0"
  by (simp add: hex_val_def)

lemma char_of_hex_pair: "char_of (16 * ((of_char c :: nat) div 16) + of_char c mod 16) = c"
  by simp

lemma parse_chars_escape_char:
  "parse_chars (escape_char c @ t) = cons_char c (parse_chars t)"
proof -
  have lt: "(of_char c :: nat) div 16 < 16" "(of_char c :: nat) mod 16 < 16"
    using nat_of_char_less_256 [of c] by (simp_all add: less_mult_imp_div_less)
  consider (q) "c = CHR 0x22" | (b) "c = CHR 0x5C" | (n) "c = CHR 0x0A" | (r) "c = CHR 0x0D"
    | (t) "c = CHR 0x09" | (bs) "c = CHR 0x08" | (f) "c = CHR 0x0C"
    | (lit) "c \<noteq> CHR 0x22" "c \<noteq> CHR 0x5C" "32 \<le> (of_char c :: nat)" "(of_char c :: nat) \<le> 126"
    | (u) "c \<noteq> CHR 0x22" "c \<noteq> CHR 0x5C" "c \<noteq> CHR 0x0A" "c \<noteq> CHR 0x0D" "c \<noteq> CHR 0x09"
          "c \<noteq> CHR 0x08" "c \<noteq> CHR 0x0C" "\<not> (32 \<le> (of_char c :: nat) \<and> (of_char c :: nat) \<le> 126)"
    by blast
  then show ?thesis
  proof cases
    case lit
    then show ?thesis by (auto simp: escape_char_def)
  next
    case u
    then show ?thesis
      by (simp add: escape_char_def hex_val_zero hex_val_hex_digit lt char_of_hex_pair)
  qed (simp_all add: escape_char_def unescape_def)
qed

lemma parse_chars_quoted:
  "parse_chars (concat (map escape_char s) @ CHR 0x22 # rest) = Some (s, rest)"
  by (induction s) (simp_all add: parse_chars_escape_char cons_char_def)

lemma skip_ws_idem: "skip_ws (skip_ws s) = skip_ws s"
  by (simp add: skip_ws_def dropWhile_idem)

lemma skip_ws_Cons: "\<not> is_ws c \<Longrightarrow> skip_ws (c # t) = c # t"
  by (simp add: skip_ws_def)

lemma skip_ws_space: "skip_ws (CHR '' '' # t) = skip_ws t"
  by (simp add: skip_ws_def is_ws_def)

lemma parse_value_skip_ws: "parse_value n (skip_ws s) = parse_value n s"
  by (cases n) (simp_all add: skip_ws_idem)

lemma json_dumps_head:
  "\<exists>c t. json_dumps v = c # t \<and> (c = CHR 0x22 \<or> c = CHR ''['' \<or> c = CHR ''{'')"
  by (cases v) (simp_all add: quote_def)

lemma update_fresh: "k \<notin> fst ` set d \<Longrightarrow> AList.update k v d = d @ [(k, v)]"
  by (induction d) auto

lemma foldl_update_distinct:
  "distinct (map fst (d @ ps)) \<Longrightarrow>
   foldl (\<lambda>d (k, v). AList.update k v d) d ps = d @ ps"
proof (induction ps arbitrary: d)
  case Nil
  then show ?case by simp
next
  case (Cons p ps)
  obtain k v where p: "p = (k, v)" by (cases p)
  from Cons.prems have fresh: "k \<notin> fst ` set d" by (auto simp: p)
  from Cons.prems have "distinct (map fst ((d @ [(k, v)]) @ ps))" by (simp add: p)
  from Cons.IH [OF this] show ?case by (simp add: p update_fresh [OF fresh])
qed

lemma dict_of_pairs_distinct: "distinct (map fst ps) \<Longrightarrow> dict_of_pairs ps = ps"
  using foldl_update_distinct [of "[]" ps] by (simp add: dict_of_pairs_def)

lemma length_join_Cons:
  "length (join sep (x # y # ys)) = length x + length sep + length (join sep (y # ys))"
  by simp

lemma parse_elements_join:
  assumes vals: "\<And>v n r. v \<in> set vs \<Longrightarrow> length (json_dumps v) \<le> n \<Longrightarrow>
                   parse_value n (json_dumps v @ r) = Some (v, r)"
    and "vs \<noteq> []"
    and "length (join '', '' (map json_dumps vs)) < m"
  shows "parse_elements m (join '', '' (map json_dumps vs) @ CHR '']'' # rest) = Some (vs, rest)"
  using assms
proof (induction vs arbitrary: m)
  case Nil
  then show ?case by simp
next
  case (Cons v vs)
  note IH = Cons.IH and prems1 = Cons.prems(1) and prems3 = Cons.prems(3)
  from prems3 obtain m' where m: "m = Suc m'" by (cases m) auto
  show ?case
  proof (cases vs)
    case Nil
    from prems3 have "length (json_dumps v) \<le> m'" by (simp add: m Nil)
    then have "parse_value m' (json_dumps v @ CHR '']'' # rest) = Some (v, CHR '']'' # rest)"
      using prems1 [of v m'] by simp
    then show ?thesis by (simp add: m Nil skip_ws_Cons is_ws_def)
  next
    case (Cons w ws)
    let ?tail = "join '', '' (map json_dumps (w # ws)) @ CHR '']'' # rest"
    from prems3 have len: "length (json_dumps v) \<le> m'"
      and len': "length (join '', '' (map json_dumps (w # ws))) < m'"
      by (simp_all add: m Cons)
    have pv: "parse_value m' (json_dumps v @ CHR '','' # CHR '' '' # ?tail)
              = Some (v, CHR '','' # CHR '' '' # ?tail)"
      using prems1 [of v m'] len by simp
    have "parse_elements m' (join '', '' (map json_dumps vs) @ CHR '']'' # rest)
          = Some (vs, rest)"
    proof (rule IH)
      show "\<And>v n r. v \<in> set vs \<Longrightarrow> length (json_dumps v) \<le> n \<Longrightarrow>
              parse_value n (json_dumps v @ r) = Some (v, r)"
        by (rule prems1) simp_all
      show "vs \<noteq> []" by (simp add: Cons)
      show "length (join '', '' (map json_dumps vs)) < m'"
        using len' by (simp add: Cons)
    qed
    then have "parse_elements m' ?tail = Some (w # ws, rest)"
      by (simp add: Cons)
    moreover have "parse_elements m' (CHR '' '' # ?tail) = parse_elements m' ?tail"
    proof (cases m')
      case 0
      then show ?thesis by simp
    next
      case (Suc k)
      have "parse_value k (CHR '' '' # ?tail) = parse_value k ?tail"
        using parse_value_skip_ws [of k "CHR '' '' # ?tail"] parse_value_skip_ws [of k ?tail]
        by (simp add: skip_ws_space)
      then show ?thesis by (simp add: Suc)
    qed
    ultimately show ?thesis
      using pv by (simp add: m Cons skip_ws_Cons is_ws_def)
  qed
qed

lemma json_dumps_JObject:
  "json_dumps (JObject kvs) = ''{'' @ join '', '' (map member_dumps kvs) @ ''}''"
proof -
  have "(\<lambda>(k, v). quote k @ '': '' @ json_dumps v) = member_dumps"
    by (auto simp: member_dumps_def fun_eq_iff)
  then show ?thesis by simp
qed

lemma length_member_dumps:
  "length (member_dumps (k, v)) = length (quote k) + 2 + length (json_dumps v)"
  by (simp add: member_dumps_def)

lemma parse_members_skip_space:
  "parse_members m (CHR '' '' # s) = parse_members m s"
  by (cases m) (simp_all add: skip_ws_space)

lemma parse_members_join:
  assumes vals: "\<And>k v n r. (k, v) \<in> set kvs \<Longrightarrow> length (json_dumps v) \<le> n \<Longrightarrow>
                   parse_value n (json_dumps v @ r) = Some (v, r)"
    and "kvs \<noteq> []"
    and "length (join '', '' (map member_dumps kvs)) < m"
  shows "parse_members m (join '', '' (map member_dumps kvs) @ CHR ''}'' # rest) = Some (kvs, rest)"
  using assms
proof (induction kvs arbitrary: m)
  case Nil
  then show ?case by simp
next
  case (Cons kv kvs)
  note IH = Cons.IH and prems1 = Cons.prems(1) and prems3 = Cons.prems(3)
  obtain k v where kv: "kv = (k, v)" by (cases kv)
  from prems3 obtain m' where m: "m = Suc m'" by (cases m) auto
  have key: "\<And>t. parse_chars (concat (map escape_char k) @ CHR 0x22 # t) = Some (k, t)"
    by (rule parse_chars_quoted)
  have val: "\<And>t. length (json_dumps v) \<le> m' \<Longrightarrow>
                parse_value m' (CHR '' '' # json_dumps v @ t) = Some (v, t)"
  proof -
    fix t assume "length (json_dumps v) \<le> m'"
    then have "parse_value m' (json_dumps v @ t) = Some (v, t)"
      using prems1 [of k v m' t] by (simp add: kv)
    moreover have "skip_ws (CHR '' '' # json_dumps v @ t) = skip_ws (json_dumps v @ t)"
      by (simp add: skip_ws_space)
    ultimately show "parse_value m' (CHR '' '' # json_dumps v @ t) = Some (v, t)"
      using parse_value_skip_ws [of m' "CHR '' '' # json_dumps v @ t"]
        parse_value_skip_ws [of m' "json_dumps v @ t"] by simp
  qed
  show ?case
  proof (cases kvs)
    case Nil
    from prems3 have "length (json_dumps v) \<le> m'"
      by (simp add: m Nil kv member_dumps_def)
    from val [OF this] show ?thesis
      by (simp add: m Nil kv member_dumps_def quote_def key skip_ws_Cons is_ws_def)
  next
    case (Cons w ws)
    let ?tail = "join '', '' (map member_dumps (w # ws)) @ CHR ''}'' # rest"
    from prems3 have len: "length (json_dumps v) \<le> m'"
      and len': "length (join '', '' (map member_dumps (w # ws))) < m'"
      by (simp_all add: m Cons kv length_member_dumps)
    have "parse_members m' (join '', '' (map member_dumps kvs) @ CHR ''}'' # rest)
          = Some (kvs, rest)"
    proof (rule IH)
      fix k' v' n r
      assume "(k', v') \<in> set kvs" "length (json_dumps v') \<le> n"
      then show "parse_value n (json_dumps v' @ r) = Some (v', r)"
        using prems1 [of k' v' n r] by simp
    next
      show "kvs \<noteq> []" by (simp add: Cons)
      show "length (join '', '' (map member_dumps kvs)) < m'"
        using len' by (simp add: Cons)
    qed
    then have tl: "parse_members m' (CHR '' '' # ?tail) = Some (w # ws, rest)"
      by (simp add: parse_members_skip_space Cons)
    have eq: "join '', '' (map member_dumps (kv # kvs)) @ CHR ''}'' # rest
          = CHR 0x22 # concat (map escape_char k) @ CHR 0x22 # CHR '':'' # CHR '' '' #
            json_dumps v @ CHR '','' # CHR '' '' # ?tail"
      by (simp add: Cons kv member_dumps_def [of "(k, v)"] quote_def)
    from val [OF len, of "CHR '','' # CHR '' '' # ?tail"] tl show ?thesis
      unfolding eq m by (simp add: key skip_ws_Cons is_ws_def kv Cons)
  qed
qed

lemma join_head:
  assumes "xs \<noteq> []" and "\<And>x. x \<in> set xs \<Longrightarrow> \<exists>t. x = c # t"
  shows "\<exists>t. join sep xs = c # t"
proof (cases xs)
  case Nil
  with assms show ?thesis by simp
next
  case (Cons x ys)
  with assms(2) [of x] obtain t where "x = c # t" by auto
  then show ?thesis by (cases ys) (simp_all add: Cons)
qed

lemma parse_value_dumps:
  "wf_json v \<Longrightarrow> length (json_dumps v) \<le> n \<Longrightarrow>
   parse_value n (json_dumps v @ rest) = Some (v, rest)"
proof (induction v arbitrary: n rest)
  case (JString s)
  then obtain m where n: "n = Suc m" by (cases n) (auto simp: quote_def)
  show ?case
    by (simp add: n quote_def skip_ws_Cons is_ws_def parse_chars_quoted)
next
  case (JArray vs)
  then obtain m where n: "n = Suc m" by (cases n) auto
  show ?case
  proof (cases "vs = []")
    case True
    then show ?thesis by (simp add: n skip_ws_Cons is_ws_def)
  next
    case False
    have vals: "\<And>v k r. v \<in> set vs \<Longrightarrow> length (json_dumps v) \<le> k \<Longrightarrow>
                  parse_value k (json_dumps v @ r) = Some (v, r)"
      using JArray.IH JArray.prems(1) by (simp add: list_all_iff)
    have len: "length (join '', '' (map json_dumps vs)) < m"
      using JArray.prems(2) by (simp add: n)
    have pe: "parse_elements m (join '', '' (map json_dumps vs) @ CHR '']'' # rest)
              = Some (vs, rest)"
      by (rule parse_elements_join [OF vals False len])
    obtain x xs where vs: "vs = x # xs" using False by (cases vs) auto
    obtain c t where hd: "json_dumps x = c # t"
      and c: "c = CHR 0x22 \<or> c = CHR ''['' \<or> c = CHR ''{''"
      using json_dumps_head [of x] by blast
    obtain t' where j: "join '', '' (map json_dumps vs) = c # t'"
      by (cases xs) (simp_all add: vs hd)
    from c have nws: "\<not> is_ws c" and nb: "c \<noteq> CHR '']''" by (auto simp: is_ws_def)
    have sk: "skip_ws (c # t' @ CHR '']'' # rest) = c # t' @ CHR '']'' # rest"
      by (rule skip_ws_Cons [OF nws])
    have "skip_ws (CHR ''['' # c # t' @ CHR '']'' # rest) = CHR ''['' # c # t' @ CHR '']'' # rest"
      by (simp add: skip_ws_Cons is_ws_def)
    with pe show ?thesis
      by (simp add: n j sk nb)
  qed
next
  case (JObject kvs)
  then obtain m where n: "n = Suc m" by (cases n) auto
  from JObject.prems(1) have dist: "distinct (map fst kvs)" by simp
  show ?case
  proof (cases "kvs = []")
    case True
    then show ?thesis by (simp add: n skip_ws_Cons is_ws_def)
  next
    case False
    have vals: "\<And>k v i r. (k, v) \<in> set kvs \<Longrightarrow> length (json_dumps v) \<le> i \<Longrightarrow>
                  parse_value i (json_dumps v @ r) = Some (v, r)"
    proof -
      fix k v i r
      assume mem: "(k, v) \<in> set kvs" and le: "length (json_dumps v) \<le> i"
      from mem JObject.prems(1) have "wf_json v" by (auto simp: list_all_iff)
      moreover have "v \<in> Basic_BNFs.snds (k, v)" by simp
      ultimately show "parse_value i (json_dumps v @ r) = Some (v, r)"
        using JObject.IH [OF mem] le by blast
    qed
    have len: "length (join '', '' (map member_dumps kvs)) < m"
      using JObject.prems(2) by (simp add: n json_dumps_JObject del: json_dumps.simps)
    have pm: "parse_members m (join '', '' (map member_dumps kvs) @ CHR ''}'' # rest)
              = Some (kvs, rest)"
      by (rule parse_members_join [OF vals False len])
    obtain x xs where kvs: "kvs = x # xs" using False by (cases kvs) auto
    obtain t' where j: "join '', '' (map member_dumps kvs) = CHR 0x22 # t'"
      by (cases xs) (simp_all add: kvs member_dumps_def quote_def)
    from pm show ?thesis
      by (simp add: n json_dumps_JObject j skip_ws_Cons is_ws_def dict_of_pairs_distinct [OF dist]
            del: json_dumps.simps)
  qed
qed

theorem json_loads_dumps: "wf_json v \<Longrightarrow> json_loads (json_dumps v) = Some v"
  using parse_value_dumps [of v "length (json_dumps v)" "[]"]
  by (simp add: json_loads_def skip_ws_def)

subsection \<open>Delivery Client\<close>

text \<open>
  C8. When SLACK_WEBHOOK_URL is missing or empty, the delivery client returns None and
  its only effect is the error log: no request is constructed and nothing is opened.
\<close>

theorem C8_missing_webhook_url:
  assumes "SLACK_WEBHOOK_URL W = None \<or> SLACK_WEBHOOK_URL W = Some []"
  shows "send_to_slack W report =
           (Inr None, [LogError ''SLACK_WEBHOOK_URL environment variable is not set''])
         \<and> (\<forall>ev \<in> set (snd (send_to_slack W report)).
               (\<forall>url payload. ev \<noteq> RequestInit url payload) \<and> (\<forall>req. ev \<noteq> UrlOpened req))"
  using assms by (auto simp: send_to_slack_def)

theorem C8_witness:
  "(SLACK_WEBHOOK_URL (example_world\<lparr>SLACK_WEBHOOK_URL := Some []\<rparr>) = None
      \<or> SLACK_WEBHOOK_URL (example_world\<lparr>SLACK_WEBHOOK_URL := Some []\<rparr>) = Some [])
   \<and> send_to_slack (example_world\<lparr>SLACK_WEBHOOK_URL := Some []\<rparr>) [divider_block] =
       (Inr None, [LogError ''SLACK_WEBHOOK_URL environment variable is not set''])"
  using C8_missing_webhook_url [of "example_world\<lparr>SLACK_WEBHOOK_URL := Some []\<rparr>" "[divider_block]"]
  by simp

subsection \<open>Entry Point\<close>

lemma analyze_costs_client_error:
  assumes "get_cost_and_usage W (fst (date_range W)) (snd (date_range W)) = Inl (ClientError m)"
  shows "analyze_costs L W =
           (Inr None,
            [BillingQuery (fst (date_range W)) (snd (date_range W)),
             LogError (''An error occurred while fetching cost data: '' @ m)])"
  using assms
  by (simp add: analyze_costs_def get_date_range_def get_cost_data_def split_beta)

text \<open>
  C4. When the billing query raises a provider error (ClientError), the entry point
  returns statusCode 500 with the JSON string "Error fetching cost data"; the run
  consists of the query and two log lines, so neither the report builder nor the
  delivery client is called.
\<close>

theorem C4_provider_error:
  assumes "get_cost_and_usage W (fst (date_range W)) (snd (date_range W)) = Inl (ClientError m)"
  shows "fst (lambda_handler L W) =
           \<lparr>statusCode = 500, body = json_dumps (JString ''Error fetching cost data'')\<rparr>
         \<and> snd (lambda_handler L W) =
             [BillingQuery (fst (date_range W)) (snd (date_range W)),
              LogError (''An error occurred while fetching cost data: '' @ m),
              LogError ''Error fetching cost data'']
         \<and> CallCreateReport \<notin> set (snd (lambda_handler L W))
         \<and> CallSendToSlack \<notin> set (snd (lambda_handler L W))"
  by (simp add: lambda_handler_def analyze_costs_client_error [OF assms] fetch_failed_def)

theorem C4_witness:
  "get_cost_and_usage (example_world\<lparr>get_cost_and_usage := \<lambda>s e. Inl (ClientError ''Throttled'')\<rparr>)
       ''2024-01-03'' ''2024-07-01'' = Inl (ClientError ''Throttled'')
   \<and> fst (lambda_handler example_lib
            (example_world\<lparr>get_cost_and_usage := \<lambda>s e. Inl (ClientError ''Throttled'')\<rparr>)) =
       \<lparr>statusCode = 500,
        body = CHR 0x22 # ''Error fetching cost data'' @ [CHR 0x22]\<rparr>"
  using C4_provider_error
    [of "example_world\<lparr>get_cost_and_usage := \<lambda>s e. Inl (ClientError ''Throttled'')\<rparr>"
        "''Throttled''" example_lib]
  by (simp add: example_world_def quote_def escape_char_def)

end
